theory Spec2Isabelle
  imports Complex_Main
begin

section \<open>JavaScript numbers\<close>

text \<open>
  The handler only negates numbers, takes their absolute value and compares them; none of
  these rounds. A number is therefore modelled by the value it denotes: a real, one of
  the two infinities, or NaN (negative zero compares like zero and is not kept apart).
  A decimal literal of the source stands for the rational it is written as.
  A property that is \<open>undefined\<close> where a number is expected behaves as \<open>NaN\<close> in
  \<open>Math.abs\<close>, unary minus and every comparison.
\<close>

datatype number = NaN | NegInfinity | Finite real | Infinity

text \<open>The operator \<open>a < b\<close>: false as soon as one side is NaN.\<close>

fun num_lt :: "number \<Rightarrow> number \<Rightarrow> bool" where
  "num_lt NaN y = False"
| "num_lt x NaN = False"
| "num_lt NegInfinity NegInfinity = False"
| "num_lt NegInfinity y = True"
| "num_lt (Finite a) (Finite b) = (a < b)"
| "num_lt (Finite a) Infinity = True"
| "num_lt (Finite a) NegInfinity = False"
| "num_lt Infinity y = False"

text \<open>The operator \<open>a > b\<close> is \<open>b < a\<close>.\<close>

definition num_gt :: "number \<Rightarrow> number \<Rightarrow> bool" where
  "num_gt a b = num_lt b a"

text \<open>The operator \<open>a >= b\<close>: not \<open>a < b\<close>, and false when one side is NaN.\<close>

fun isNaN :: "number \<Rightarrow> bool" where
  "isNaN NaN = True"
| "isNaN x = False"

definition num_ge :: "number \<Rightarrow> number \<Rightarrow> bool" where
  "num_ge a b = (if isNaN a then False else if isNaN b then False else (if num_lt a b then False else True))"

text \<open>Unary minus and \<open>Math.abs\<close>.\<close>

fun num_neg :: "number \<Rightarrow> number" where
  "num_neg NaN = NaN"
| "num_neg NegInfinity = Infinity"
| "num_neg (Finite a) = Finite (- a)"
| "num_neg Infinity = NegInfinity"

fun Math_abs :: "number \<Rightarrow> number" where
  "Math_abs NaN = NaN"
| "Math_abs NegInfinity = Infinity"
| "Math_abs (Finite a) = Finite \<bar>a\<bar>"
| "Math_abs Infinity = Infinity"

section \<open>Data model\<close>

datatype swipeDirections = SWIPE_UP | SWIPE_DOWN | SWIPE_LEFT | SWIPE_RIGHT

record SwipeConfig =
  velocityThreshold :: number
  directionalOffsetThreshold :: number
  gestureIsClickThreshold :: number
  needVerticalScroll :: bool
  scrollVerticalThreshold :: number
  swipeEnabled :: bool

text \<open>
  \<open>Partial<SwipeConfig>\<close>: every property may be absent (\<open>None\<close>). A numeric property
  that is present but \<open>undefined\<close> is \<open>Some NaN\<close>, a boolean one \<open>Some False\<close>.
\<close>

record PartialSwipeConfig =
  velocityThreshold_opt :: "number option"
  directionalOffsetThreshold_opt :: "number option"
  gestureIsClickThreshold_opt :: "number option"
  needVerticalScroll_opt :: "bool option"
  scrollVerticalThreshold_opt :: "number option"
  swipeEnabled_opt :: "bool option"

text \<open>
  The gesture state handed over by the pan responder of the host framework. The handler
  reads \<open>dx\<close>, \<open>dy\<close>, \<open>vx\<close> and \<open>vy\<close>; the other fields are those the framework's
  type declares (\<open>_accountsForMovesUpTo\<close> is written without its underscore).
\<close>

record PanResponderGestureState =
  stateID :: number
  moveX :: number
  moveY :: number
  x0 :: number
  y0 :: number
  dx :: number
  dy :: number
  vx :: number
  vy :: number
  numberActiveTouches :: number
  accountsForMovesUpTo :: number

text \<open>
  The touch event: only \<open>evt.nativeEvent.touches.length\<close> is read, so a touch is
  represented by its identifier.
\<close>

record NativeTouchEvent =
  touches :: "nat list"

record GestureResponderEvent =
  nativeEvent :: NativeTouchEvent

text \<open>
  The properties of the component. A callback returns nothing and acts on the caller's
  world, so it is a function on a state \<open>'w\<close> of the caller; an absent callback is
  \<open>None\<close>. Callbacks are taken to return normally. The property \<open>swipeEnabled\<close> of the
  component is \<open>swipeEnabled_prop\<close> here, to keep it apart from the field of the same name
  of the configuration.
\<close>

record 'w GestureHandlerProps =
  config :: PartialSwipeConfig
  swipeEnabled_prop :: "bool option"
  responderTerminationRequest :: "bool option"
  onSwipe :: "(swipeDirections \<Rightarrow> PanResponderGestureState \<Rightarrow> 'w \<Rightarrow> 'w) option"
  onSwipeUp :: "(PanResponderGestureState \<Rightarrow> 'w \<Rightarrow> 'w) option"
  onSwipeDown :: "(PanResponderGestureState \<Rightarrow> 'w \<Rightarrow> 'w) option"
  onSwipeLeft :: "(PanResponderGestureState \<Rightarrow> 'w \<Rightarrow> 'w) option"
  onSwipeRight :: "(PanResponderGestureState \<Rightarrow> 'w \<Rightarrow> 'w) option"

text \<open>The handlers given to \<open>PanResponder.create\<close>.\<close>

record 'w PanResponderCallbacks =
  onStartShouldSetPanResponder :: "GestureResponderEvent \<Rightarrow> PanResponderGestureState \<Rightarrow> bool"
  onMoveShouldSetPanResponder :: "GestureResponderEvent \<Rightarrow> PanResponderGestureState \<Rightarrow> bool"
  onPanResponderRelease :: "GestureResponderEvent \<Rightarrow> PanResponderGestureState \<Rightarrow> 'w \<Rightarrow> 'w"
  onPanResponderTerminate :: "GestureResponderEvent \<Rightarrow> PanResponderGestureState \<Rightarrow> 'w \<Rightarrow> 'w"
  onPanResponderTerminationRequest :: bool

section \<open>The gesture handler\<close>

text \<open>
  The functions declared inside \<open>GestureHandler\<close> are closures over \<open>props\<close> and the
  merged configuration \<open>_swipeConfig\<close>; one that reads either takes \<open>props\<close> as its
  first argument. They keep the names of the source, without the leading underscore.
\<close>

definition defaultSwipeConfig :: SwipeConfig where
  "defaultSwipeConfig =
     \<lparr> velocityThreshold = Finite 0.3,
       directionalOffsetThreshold = Finite 80,
       gestureIsClickThreshold = Finite 5,
       needVerticalScroll = False,
       scrollVerticalThreshold = Finite 5,
       swipeEnabled = True \<rparr>"

text \<open>
  \<open>{...defaultSwipeConfig, ...props.config}\<close>: a property of \<open>props.config\<close> that is
  present replaces the default. (Spreading an absent \<open>config\<close> adds nothing, which is
  the partial configuration with every property absent.)
\<close>

definition spread :: "'a \<Rightarrow> 'a option \<Rightarrow> 'a" where
  "spread d p = (case p of None \<Rightarrow> d | Some v \<Rightarrow> v)"

definition swipeConfig :: "'w GestureHandlerProps \<Rightarrow> SwipeConfig" where
  "swipeConfig props =
     \<lparr> velocityThreshold =
         spread (velocityThreshold defaultSwipeConfig) (velocityThreshold_opt (config props)),
       directionalOffsetThreshold =
         spread (directionalOffsetThreshold defaultSwipeConfig)
           (directionalOffsetThreshold_opt (config props)),
       gestureIsClickThreshold =
         spread (gestureIsClickThreshold defaultSwipeConfig)
           (gestureIsClickThreshold_opt (config props)),
       needVerticalScroll =
         spread (needVerticalScroll defaultSwipeConfig) (needVerticalScroll_opt (config props)),
       scrollVerticalThreshold =
         spread (scrollVerticalThreshold defaultSwipeConfig)
           (scrollVerticalThreshold_opt (config props)),
       swipeEnabled =
         spread (swipeEnabled defaultSwipeConfig) (swipeEnabled_opt (config props)) \<rparr>"

text \<open>\<open>!!x\<close> for an optional boolean: \<open>undefined\<close> is falsy.\<close>

fun truthy :: "bool option \<Rightarrow> bool" where
  "truthy None = False"
| "truthy (Some b) = b"

definition gestureIsClick :: "'w GestureHandlerProps \<Rightarrow> PanResponderGestureState \<Rightarrow> bool" where
  "gestureIsClick props gestureState =
     (num_lt (Math_abs (dx gestureState)) (gestureIsClickThreshold (swipeConfig props))
      \<and> num_lt (Math_abs (dy gestureState)) (gestureIsClickThreshold (swipeConfig props)))"

definition handleShouldSetPanResponder ::
  "'w GestureHandlerProps \<Rightarrow> GestureResponderEvent \<Rightarrow> PanResponderGestureState \<Rightarrow> bool" where
  "handleShouldSetPanResponder props evt gestureState =
     (if needVerticalScroll (swipeConfig props)
         \<and> (num_gt (dy gestureState) (scrollVerticalThreshold (swipeConfig props))
            \<or> num_lt (dy gestureState) (num_neg (scrollVerticalThreshold (swipeConfig props))))
      then False
      else truthy (swipeEnabled_prop props)
           \<and> length (touches (nativeEvent evt)) = 1
           \<and> \<not> gestureIsClick props gestureState)"

definition handleResponderTerminationRequest :: "'w GestureHandlerProps \<Rightarrow> bool" where
  "handleResponderTerminationRequest props = (responderTerminationRequest props \<noteq> Some False)"

definition isValidSwipe :: "number \<Rightarrow> number \<Rightarrow> number \<Rightarrow> number \<Rightarrow> bool" where
  "isValidSwipe velocity velocityThreshold' directionalOffset directionalOffsetThreshold' =
     (num_gt (Math_abs velocity) velocityThreshold'
      \<and> num_lt (Math_abs directionalOffset) directionalOffsetThreshold')"

definition isValidHorizontalSwipe :: "PanResponderGestureState \<Rightarrow> bool" where
  "isValidHorizontalSwipe gestureState =
     isValidSwipe (vx gestureState) (velocityThreshold defaultSwipeConfig)
       (dy gestureState) (directionalOffsetThreshold defaultSwipeConfig)"

definition isValidVerticalSwipe :: "PanResponderGestureState \<Rightarrow> bool" where
  "isValidVerticalSwipe gestureState =
     isValidSwipe (vy gestureState) (velocityThreshold defaultSwipeConfig)
       (dx gestureState) (directionalOffsetThreshold defaultSwipeConfig)"

text \<open>The classifier; \<open>None\<close> is the source's \<open>null\<close>.\<close>

definition getSwipeDirection :: "PanResponderGestureState \<Rightarrow> swipeDirections option" where
  "getSwipeDirection gestureState =
     (let absDx = Math_abs (dx gestureState);
          absDy = Math_abs (dy gestureState);
          validHorizontal = isValidHorizontalSwipe gestureState;
          validVertical = isValidVerticalSwipe gestureState;
          horizontalDirection = (if num_gt (dx gestureState) (Finite 0) then SWIPE_RIGHT else SWIPE_LEFT);
          verticalDirection = (if num_gt (dy gestureState) (Finite 0) then SWIPE_DOWN else SWIPE_UP)
      in if num_gt absDx absDy
         then (if validHorizontal then Some horizontalDirection
               else if validVertical then Some verticalDirection
               else None)
         else (if validVertical then Some verticalDirection
               else if validHorizontal then Some horizontalDirection
               else None))"

text \<open>\<open>f && f(args)\<close>: the callback runs when it is present.\<close>

fun invoke :: "('w \<Rightarrow> 'w) option \<Rightarrow> 'w \<Rightarrow> 'w" where
  "invoke None w = w"
| "invoke (Some f) w = f w"

definition triggerSwipeHandlers ::
  "'w GestureHandlerProps \<Rightarrow> swipeDirections \<Rightarrow> PanResponderGestureState \<Rightarrow> 'w \<Rightarrow> 'w" where
  "triggerSwipeHandlers props swipeDirection gestureState w =
     (let w1 = invoke (map_option (\<lambda>f. f swipeDirection gestureState) (onSwipe props)) w
      in case swipeDirection of
           SWIPE_LEFT \<Rightarrow> invoke (map_option (\<lambda>f. f gestureState) (onSwipeLeft props)) w1
         | SWIPE_RIGHT \<Rightarrow> invoke (map_option (\<lambda>f. f gestureState) (onSwipeRight props)) w1
         | SWIPE_UP \<Rightarrow> invoke (map_option (\<lambda>f. f gestureState) (onSwipeUp props)) w1
         | SWIPE_DOWN \<Rightarrow> invoke (map_option (\<lambda>f. f gestureState) (onSwipeDown props)) w1)"

definition handlePanResponderEnd ::
  "'w GestureHandlerProps \<Rightarrow> GestureResponderEvent \<Rightarrow> PanResponderGestureState \<Rightarrow> 'w \<Rightarrow> 'w" where
  "handlePanResponderEnd props evt gestureState w =
     (case getSwipeDirection gestureState of
        None \<Rightarrow> w
      | Some swipedir \<Rightarrow> triggerSwipeHandlers props swipedir gestureState w)"

text \<open>The component: the handlers it registers with the pan responder.\<close>

definition GestureHandler :: "'w GestureHandlerProps \<Rightarrow> 'w PanResponderCallbacks" where
  "GestureHandler props =
     \<lparr> onStartShouldSetPanResponder = handleShouldSetPanResponder props,
       onMoveShouldSetPanResponder = handleShouldSetPanResponder props,
       onPanResponderRelease = handlePanResponderEnd props,
       onPanResponderTerminate = handlePanResponderEnd props,
       onPanResponderTerminationRequest = handleResponderTerminationRequest props \<rparr>"

section \<open>Concrete inputs\<close>

text \<open>A gesture state with the given \<open>dx\<close>, \<open>dy\<close>, \<open>vx\<close>, \<open>vy\<close>, one touch, starting at the origin.\<close>

definition gesture :: "number \<Rightarrow> number \<Rightarrow> number \<Rightarrow> number \<Rightarrow> PanResponderGestureState" where
  "gesture dx' dy' vx' vy' =
     \<lparr> stateID = Finite 1, moveX = dx', moveY = dy', x0 = Finite 0, y0 = Finite 0,
       dx = dx', dy = dy', vx = vx', vy = vy',
       numberActiveTouches = Finite 1, accountsForMovesUpTo = Finite 0 \<rparr>"

definition oneTouch :: GestureResponderEvent where
  "oneTouch = \<lparr> nativeEvent = \<lparr> touches = [0] \<rparr> \<rparr>"

definition emptyConfig :: PartialSwipeConfig where
  "emptyConfig =
     \<lparr> velocityThreshold_opt = None, directionalOffsetThreshold_opt = None,
       gestureIsClickThreshold_opt = None, needVerticalScroll_opt = None,
       scrollVerticalThreshold_opt = None, swipeEnabled_opt = None \<rparr>"

text \<open>Properties with nothing set but the given configuration and \<open>swipeEnabled\<close>.\<close>

definition propsWith :: "PartialSwipeConfig \<Rightarrow> bool option \<Rightarrow> unit GestureHandlerProps" where
  "propsWith c e =
     \<lparr> config = c, swipeEnabled_prop = e, responderTerminationRequest = None,
       onSwipe = None, onSwipeUp = None, onSwipeDown = None,
       onSwipeLeft = None, onSwipeRight = None \<rparr>"

text \<open>Callbacks that append their own call to a log, so that a run shows what was called.\<close>

datatype call =
    Called_onSwipe swipeDirections PanResponderGestureState
  | Called_onSwipeUp PanResponderGestureState
  | Called_onSwipeDown PanResponderGestureState
  | Called_onSwipeLeft PanResponderGestureState
  | Called_onSwipeRight PanResponderGestureState

definition loggingProps :: "call list GestureHandlerProps" where
  "loggingProps =
     \<lparr> config = emptyConfig, swipeEnabled_prop = Some True, responderTerminationRequest = None,
       onSwipe = Some (\<lambda>d g w. w @ [Called_onSwipe d g]),
       onSwipeUp = Some (\<lambda>g w. w @ [Called_onSwipeUp g]),
       onSwipeDown = Some (\<lambda>g w. w @ [Called_onSwipeDown g]),
       onSwipeLeft = Some (\<lambda>g w. w @ [Called_onSwipeLeft g]),
       onSwipeRight = Some (\<lambda>g w. w @ [Called_onSwipeRight g]) \<rparr>"

section \<open>Facts about comparisons\<close>

lemma num_lt_irrefl: "\<not> num_lt x x"
  by (cases x) simp_all

lemma num_gt_abs: "num_gt (Math_abs x) t = (num_gt x t \<or> num_lt x (num_neg t))"
  by (cases x; cases t) (auto simp: num_gt_def)

lemma Math_abs_NaN: "isNaN x \<Longrightarrow> Math_abs x = NaN"
  by (cases x) simp_all

lemma num_lt_NaN_right: "\<not> num_lt x NaN"
  by (cases x) simp_all

lemma isValidSwipe_NaN_velocity: "isNaN v \<Longrightarrow> \<not> isValidSwipe v vt d dt"
  by (simp add: isValidSwipe_def num_gt_def Math_abs_NaN num_lt_NaN_right)

lemma isValidSwipe_NaN_offset: "isNaN d \<Longrightarrow> \<not> isValidSwipe v vt d dt"
  by (simp add: isValidSwipe_def Math_abs_NaN)

lemma getSwipeDirection_invalid:
  "\<not> isValidHorizontalSwipe gs \<Longrightarrow> \<not> isValidVerticalSwipe gs \<Longrightarrow> getSwipeDirection gs = None"
  by (simp add: getSwipeDirection_def)

lemmas eval_defs =
  getSwipeDirection_def isValidHorizontalSwipe_def isValidVerticalSwipe_def isValidSwipe_def
  defaultSwipeConfig_def gesture_def num_gt_def num_ge_def

lemmas props_defs =
  swipeConfig_def spread_def propsWith_def emptyConfig_def oneTouch_def gestureIsClick_def
  handleShouldSetPanResponder_def

lemmas end_defs =
  handlePanResponderEnd_def triggerSwipeHandlers_def loggingProps_def GestureHandler_def

section \<open>Axis validity and the configured thresholds\<close>

text \<open>
  C1. The claim: horizontal validity is \<open>|vx| > velocityThreshold\<close> and
  \<open>|dy| < directionalOffsetThreshold\<close> with the thresholds of the merged configuration.
  The handler compares against \<open>defaultSwipeConfig\<close> instead. With
  \<open>velocityThreshold\<close> overridden to 0.1 and the gesture dx = 100, dy = 0, vx = 0.2,
  vy = 0, the merged thresholds accept the horizontal swipe, yet the handler's
  horizontal validity is false and the classifier returns nothing.
\<close>

theorem C1_override_ignored:
  "velocityThreshold
      (swipeConfig (propsWith (emptyConfig\<lparr>velocityThreshold_opt := Some (Finite 0.1)\<rparr>) (Some True)))
     = Finite 0.1
   \<and> num_gt (Math_abs (vx (gesture (Finite 100) (Finite 0) (Finite 0.2) (Finite 0))))
        (velocityThreshold
          (swipeConfig (propsWith (emptyConfig\<lparr>velocityThreshold_opt := Some (Finite 0.1)\<rparr>) (Some True))))
   \<and> num_lt (Math_abs (dy (gesture (Finite 100) (Finite 0) (Finite 0.2) (Finite 0))))
        (directionalOffsetThreshold
          (swipeConfig (propsWith (emptyConfig\<lparr>velocityThreshold_opt := Some (Finite 0.1)\<rparr>) (Some True))))
   \<and> isValidHorizontalSwipe (gesture (Finite 100) (Finite 0) (Finite 0.2) (Finite 0)) = False
   \<and> getSwipeDirection (gesture (Finite 100) (Finite 0) (Finite 0.2) (Finite 0)) = None"
  by (simp add: eval_defs props_defs)

section \<open>The classifier on the specification's fallback example\<close>

text \<open>
  C2, as claimed: with the default configuration the gesture dx = 10, dy = 100, vx = 0.5,
  vy = 0.1 is classified SWIPE_RIGHT. It is not.
\<close>

theorem C2_counterexample:
  "getSwipeDirection (gesture (Finite 10) (Finite 100) (Finite 0.5) (Finite 0.1)) \<noteq> Some SWIPE_RIGHT"
  by (simp add: eval_defs)

text \<open>
  C2, amended: for dx = 10, dy = 100, vx = 0.5, vy = 0.1 the classifier returns nothing,
  since vertical validity fails on the velocity (0.1 is not above 0.3) and horizontal
  validity fails on the cross-axis displacement (100 is not below 80). The fallback to
  the horizontal direction happens once the cross-axis displacement is below the
  threshold: dx = 10, dy = 50, vx = 0.5, vy = 0.1 is classified SWIPE_RIGHT although
  the vertical axis is dominant.
\<close>

theorem C2_fallback_amended:
  "getSwipeDirection (gesture (Finite 10) (Finite 100) (Finite 0.5) (Finite 0.1)) = None
   \<and> isValidVerticalSwipe (gesture (Finite 10) (Finite 100) (Finite 0.5) (Finite 0.1)) = False
   \<and> isValidHorizontalSwipe (gesture (Finite 10) (Finite 100) (Finite 0.5) (Finite 0.1)) = False
   \<and> num_gt (Math_abs (dy (gesture (Finite 10) (Finite 50) (Finite 0.5) (Finite 0.1))))
        (Math_abs (dx (gesture (Finite 10) (Finite 50) (Finite 0.5) (Finite 0.1))))
   \<and> isValidVerticalSwipe (gesture (Finite 10) (Finite 50) (Finite 0.5) (Finite 0.1)) = False
   \<and> getSwipeDirection (gesture (Finite 10) (Finite 50) (Finite 0.5) (Finite 0.1)) = Some SWIPE_RIGHT"
  by (simp add: eval_defs)

section \<open>Claiming the gesture\<close>

text \<open>
  C3. The claim: without a \<open>swipeEnabled\<close> setting from the caller the handler claims a
  one-touch gesture that is not a click. The handler reads the optional property
  \<open>props.swipeEnabled\<close>, not the merged configuration whose \<open>swipeEnabled\<close> is true by
  default: with nothing set, one touch and the gesture dx = 10, dy = 0, it declines.
\<close>

theorem C3_unset_swipeEnabled_declines:
  "swipeEnabled_prop (propsWith emptyConfig None) = None
   \<and> swipeEnabled (swipeConfig (propsWith emptyConfig None)) = True
   \<and> needVerticalScroll (swipeConfig (propsWith emptyConfig None)) = False
   \<and> length (touches (nativeEvent oneTouch)) = 1
   \<and> gestureIsClick (propsWith emptyConfig None) (gesture (Finite 10) (Finite 0) (Finite 0) (Finite 0)) = False
   \<and> handleShouldSetPanResponder (propsWith emptyConfig None) oneTouch
        (gesture (Finite 10) (Finite 0) (Finite 0) (Finite 0)) = False
   \<and> onStartShouldSetPanResponder (GestureHandler (propsWith emptyConfig None)) oneTouch
        (gesture (Finite 10) (Finite 0) (Finite 0) (Finite 0)) = False
   \<and> onMoveShouldSetPanResponder (GestureHandler (propsWith emptyConfig None)) oneTouch
        (gesture (Finite 10) (Finite 0) (Finite 0) (Finite 0)) = False"
  by (simp add: eval_defs props_defs GestureHandler_def)

section \<open>Dominant axis\<close>

text \<open>
  C4. For every gesture state: when \<open>|dx| > |dy|\<close> the classifier returns the horizontal
  direction if the horizontal swipe is valid, else the vertical direction if the vertical
  swipe is valid, else nothing; when \<open>|dy| >= |dx|\<close> it returns the vertical direction
  if valid, else the horizontal one if valid, else nothing. The horizontal direction is
  SWIPE_RIGHT when \<open>dx > 0\<close> and SWIPE_LEFT otherwise, the vertical one SWIPE_DOWN when
  \<open>dy > 0\<close> and SWIPE_UP otherwise.
\<close>

theorem C4_dominant_axis:
  "(num_gt (Math_abs (dx gs)) (Math_abs (dy gs)) \<longrightarrow>
      getSwipeDirection gs =
        (if isValidHorizontalSwipe gs
         then Some (if num_gt (dx gs) (Finite 0) then SWIPE_RIGHT else SWIPE_LEFT)
         else if isValidVerticalSwipe gs
         then Some (if num_gt (dy gs) (Finite 0) then SWIPE_DOWN else SWIPE_UP)
         else None))
   \<and> (num_ge (Math_abs (dy gs)) (Math_abs (dx gs)) \<longrightarrow>
      getSwipeDirection gs =
        (if isValidVerticalSwipe gs
         then Some (if num_gt (dy gs) (Finite 0) then SWIPE_DOWN else SWIPE_UP)
         else if isValidHorizontalSwipe gs
         then Some (if num_gt (dx gs) (Finite 0) then SWIPE_RIGHT else SWIPE_LEFT)
         else None))"
proof (intro conjI impI)
  assume "num_gt (Math_abs (dx gs)) (Math_abs (dy gs))"
  then show "getSwipeDirection gs =
        (if isValidHorizontalSwipe gs
         then Some (if num_gt (dx gs) (Finite 0) then SWIPE_RIGHT else SWIPE_LEFT)
         else if isValidVerticalSwipe gs
         then Some (if num_gt (dy gs) (Finite 0) then SWIPE_DOWN else SWIPE_UP)
         else None)"
    by (simp add: getSwipeDirection_def)
next
  assume ge: "num_ge (Math_abs (dy gs)) (Math_abs (dx gs))"
  have "\<not> num_gt (Math_abs (dx gs)) (Math_abs (dy gs))"
  proof
    assume "num_gt (Math_abs (dx gs)) (Math_abs (dy gs))"
    then have "num_lt (Math_abs (dy gs)) (Math_abs (dx gs))"
      by (simp add: num_gt_def)
    with ge show False
      by (simp add: num_ge_def split: if_splits)
  qed
  then show "getSwipeDirection gs =
        (if isValidVerticalSwipe gs
         then Some (if num_gt (dy gs) (Finite 0) then SWIPE_DOWN else SWIPE_UP)
         else if isValidHorizontalSwipe gs
         then Some (if num_gt (dx gs) (Finite 0) then SWIPE_RIGHT else SWIPE_LEFT)
         else None)"
    by (simp add: getSwipeDirection_def)
qed

theorem C4_dominant_axis_witness:
  "num_gt (Math_abs (dx (gesture (Finite 100) (Finite 10) (Finite 0.5) (Finite 0.5))))
          (Math_abs (dy (gesture (Finite 100) (Finite 10) (Finite 0.5) (Finite 0.5))))
   \<and> getSwipeDirection (gesture (Finite 100) (Finite 10) (Finite 0.5) (Finite 0.5)) = Some SWIPE_RIGHT
   \<and> num_ge (Math_abs (dy (gesture (Finite (- 20)) (Finite (- 20)) (Finite (- 0.5)) (Finite (- 0.5)))))
          (Math_abs (dx (gesture (Finite (- 20)) (Finite (- 20)) (Finite (- 0.5)) (Finite (- 0.5)))))
   \<and> getSwipeDirection (gesture (Finite (- 20)) (Finite (- 20)) (Finite (- 0.5)) (Finite (- 0.5))) = Some SWIPE_UP"
proof -
  let ?a = "gesture (Finite 100) (Finite 10) (Finite 0.5) (Finite 0.5)"
  let ?b = "gesture (Finite (- 20)) (Finite (- 20)) (Finite (- 0.5)) (Finite (- 0.5))"
  have ha: "num_gt (Math_abs (dx ?a)) (Math_abs (dy ?a))"
    by (simp add: gesture_def num_gt_def)
  have hb: "num_ge (Math_abs (dy ?b)) (Math_abs (dx ?b))"
    by (simp add: gesture_def num_ge_def)
  have va: "isValidHorizontalSwipe ?a" "num_gt (dx ?a) (Finite 0)"
    by (simp_all add: isValidHorizontalSwipe_def isValidSwipe_def defaultSwipeConfig_def
        gesture_def num_gt_def)
  have vb: "isValidVerticalSwipe ?b" "\<not> num_gt (dy ?b) (Finite 0)"
    by (simp_all add: isValidVerticalSwipe_def isValidSwipe_def defaultSwipeConfig_def
        gesture_def num_gt_def)
  from C4_dominant_axis [of ?a] ha va have "getSwipeDirection ?a = Some SWIPE_RIGHT"
    by simp
  moreover from C4_dominant_axis [of ?b] hb vb have "getSwipeDirection ?b = Some SWIPE_UP"
    by simp
  ultimately show ?thesis
    using ha hb by simp
qed

section \<open>Callbacks at the end of a gesture\<close>

text \<open>
  C5. At the end of a gesture (release or termination): when the classifier produces a
  direction D, the callback \<open>onSwipe\<close>, if present, runs first, on D and the gesture state,
  and the callback of the direction D, if present, runs second, on the gesture state;
  when the classifier produces nothing, no callback runs and the caller's world is
  unchanged.
\<close>

theorem C5_callbacks_in_order:
  "(getSwipeDirection gs = Some D \<longrightarrow>
      handlePanResponderEnd props evt gs w =
        (case (case D of SWIPE_UP \<Rightarrow> onSwipeUp props | SWIPE_DOWN \<Rightarrow> onSwipeDown props
                 | SWIPE_LEFT \<Rightarrow> onSwipeLeft props | SWIPE_RIGHT \<Rightarrow> onSwipeRight props) of
           None \<Rightarrow> (case onSwipe props of None \<Rightarrow> w | Some f \<Rightarrow> f D gs w)
         | Some g \<Rightarrow> g gs (case onSwipe props of None \<Rightarrow> w | Some f \<Rightarrow> f D gs w)))
   \<and> (getSwipeDirection gs = None \<longrightarrow> handlePanResponderEnd props evt gs w = w)
   \<and> onPanResponderRelease (GestureHandler props) = handlePanResponderEnd props
   \<and> onPanResponderTerminate (GestureHandler props) = handlePanResponderEnd props"
proof (intro conjI impI)
  assume "getSwipeDirection gs = Some D"
  then show "handlePanResponderEnd props evt gs w =
        (case (case D of SWIPE_UP \<Rightarrow> onSwipeUp props | SWIPE_DOWN \<Rightarrow> onSwipeDown props
                 | SWIPE_LEFT \<Rightarrow> onSwipeLeft props | SWIPE_RIGHT \<Rightarrow> onSwipeRight props) of
           None \<Rightarrow> (case onSwipe props of None \<Rightarrow> w | Some f \<Rightarrow> f D gs w)
         | Some g \<Rightarrow> g gs (case onSwipe props of None \<Rightarrow> w | Some f \<Rightarrow> f D gs w))"
    by (cases D; cases "onSwipe props")
       (simp_all add: handlePanResponderEnd_def triggerSwipeHandlers_def split: option.splits)
next
  assume "getSwipeDirection gs = None"
  then show "handlePanResponderEnd props evt gs w = w"
    by (simp add: handlePanResponderEnd_def)
qed (simp_all add: GestureHandler_def)

theorem C5_callbacks_in_order_witness:
  "getSwipeDirection (gesture (Finite 100) (Finite 10) (Finite 0.5) (Finite 0.5)) = Some SWIPE_RIGHT
   \<and> onPanResponderRelease (GestureHandler loggingProps) oneTouch
        (gesture (Finite 100) (Finite 10) (Finite 0.5) (Finite 0.5)) []
      = [Called_onSwipe SWIPE_RIGHT (gesture (Finite 100) (Finite 10) (Finite 0.5) (Finite 0.5)),
         Called_onSwipeRight (gesture (Finite 100) (Finite 10) (Finite 0.5) (Finite 0.5))]
   \<and> getSwipeDirection (gesture (Finite 100) (Finite 0) (Finite 0.1) (Finite 0)) = None
   \<and> onPanResponderTerminate (GestureHandler loggingProps) oneTouch
        (gesture (Finite 100) (Finite 0) (Finite 0.1) (Finite 0)) [] = []"
proof -
  let ?a = "gesture (Finite 100) (Finite 10) (Finite 0.5) (Finite 0.5)"
  let ?b = "gesture (Finite 100) (Finite 0) (Finite 0.1) (Finite 0)"
  have da: "getSwipeDirection ?a = Some SWIPE_RIGHT"
    by (simp add: eval_defs)
  have db: "getSwipeDirection ?b = None"
    by (simp add: eval_defs)
  from C5_callbacks_in_order [of ?a SWIPE_RIGHT loggingProps oneTouch "[]"] da
  have "onPanResponderRelease (GestureHandler loggingProps) oneTouch ?a []
          = [Called_onSwipe SWIPE_RIGHT ?a, Called_onSwipeRight ?a]"
    by (simp add: loggingProps_def)
  moreover from C5_callbacks_in_order [of ?b SWIPE_RIGHT loggingProps oneTouch "[]"] db
  have "onPanResponderTerminate (GestureHandler loggingProps) oneTouch ?b [] = []"
    by simp
  ultimately show ?thesis
    using da db by simp
qed

section \<open>NaN inputs\<close>

text \<open>
  C6, as claimed: a NaN in any of dx, dy, vx, vy makes the classifier return nothing and no
  callback run. With vx = NaN and an upward swipe on the other fields (dx = 0,
  dy = -100, vy = -0.5) the classifier returns SWIPE_UP and both callbacks run.
\<close>

theorem C6_counterexample:
  "isNaN (vx (gesture (Finite 0) (Finite (- 100)) NaN (Finite (- 0.5))))
   \<and> getSwipeDirection (gesture (Finite 0) (Finite (- 100)) NaN (Finite (- 0.5))) = Some SWIPE_UP
   \<and> handlePanResponderEnd loggingProps oneTouch
        (gesture (Finite 0) (Finite (- 100)) NaN (Finite (- 0.5))) []
      = [Called_onSwipe SWIPE_UP (gesture (Finite 0) (Finite (- 100)) NaN (Finite (- 0.5))),
         Called_onSwipeUp (gesture (Finite 0) (Finite (- 100)) NaN (Finite (- 0.5)))]"
  by (simp add: eval_defs end_defs)

text \<open>
  C6, amended: the classifier returns a direction or nothing on every input, NaN
  included, and raises nothing. A NaN in vx or dy makes the horizontal swipe invalid, a
  NaN in vy or dx makes the vertical swipe invalid. So when vx or dy is NaN and also vy
  or dx is NaN (for instance when dx and dy are both NaN, or vx and vy are), the
  classifier returns nothing and no callback runs. A NaN in the inputs of one axis only
  leaves the other axis free to produce its direction.
\<close>

theorem C6_nan_amended:
  "(isNaN (vx gs) \<or> isNaN (dy gs) \<longrightarrow> \<not> isValidHorizontalSwipe gs)
   \<and> (isNaN (vy gs) \<or> isNaN (dx gs) \<longrightarrow> \<not> isValidVerticalSwipe gs)
   \<and> ((isNaN (vx gs) \<or> isNaN (dy gs)) \<and> (isNaN (vy gs) \<or> isNaN (dx gs)) \<longrightarrow>
        getSwipeDirection gs = None \<and> handlePanResponderEnd props evt gs w = w)"
proof -
  have h: "isNaN (vx gs) \<or> isNaN (dy gs) \<Longrightarrow> \<not> isValidHorizontalSwipe gs"
    unfolding isValidHorizontalSwipe_def
    using isValidSwipe_NaN_velocity isValidSwipe_NaN_offset by blast
  have v: "isNaN (vy gs) \<or> isNaN (dx gs) \<Longrightarrow> \<not> isValidVerticalSwipe gs"
    unfolding isValidVerticalSwipe_def
    using isValidSwipe_NaN_velocity isValidSwipe_NaN_offset by blast
  have "getSwipeDirection gs = None \<and> handlePanResponderEnd props evt gs w = w"
    if "isNaN (vx gs) \<or> isNaN (dy gs)" and "isNaN (vy gs) \<or> isNaN (dx gs)"
  proof -
    from that h v have "getSwipeDirection gs = None"
      by (intro getSwipeDirection_invalid) blast+
    then show ?thesis
      by (simp add: handlePanResponderEnd_def)
  qed
  with h v show ?thesis
    by blast
qed

theorem C6_nan_amended_witness:
  "isNaN (dx (gesture NaN NaN (Finite 0.5) (Finite 0.5)))
   \<and> isNaN (dy (gesture NaN NaN (Finite 0.5) (Finite 0.5)))
   \<and> getSwipeDirection (gesture NaN NaN (Finite 0.5) (Finite 0.5)) = None
   \<and> handlePanResponderEnd loggingProps oneTouch (gesture NaN NaN (Finite 0.5) (Finite 0.5)) [] = []
   \<and> isNaN (vx (gesture (Finite 100) (Finite 0) NaN (Finite 0)))
   \<and> \<not> isValidHorizontalSwipe (gesture (Finite 100) (Finite 0) NaN (Finite 0))"
proof -
  let ?a = "gesture NaN NaN (Finite 0.5) (Finite 0.5)"
  let ?b = "gesture (Finite 100) (Finite 0) NaN (Finite 0)"
  have na: "isNaN (dx ?a)" "isNaN (dy ?a)"
    by (simp_all add: gesture_def)
  have nb: "isNaN (vx ?b)"
    by (simp add: gesture_def)
  from C6_nan_amended [of ?a loggingProps oneTouch "[]"] na
  have "getSwipeDirection ?a = None \<and> handlePanResponderEnd loggingProps oneTouch ?a [] = []"
    by blast
  moreover from C6_nan_amended [of ?b loggingProps oneTouch "[]"] nb
  have "\<not> isValidHorizontalSwipe ?b"
    by blast
  ultimately show ?thesis
    using na nb by simp
qed

section \<open>Thresholds are exclusive bounds\<close>

text \<open>
  The comparisons of \<open>isValidSwipe\<close> themselves are strict: a velocity whose absolute
  value is the threshold it is compared with, or a cross-axis displacement whose absolute
  value is the threshold it is compared with, is not valid.
\<close>

lemma isValidSwipe_strict_velocity: "\<not> isValidSwipe v (Math_abs v) d dt"
  by (simp add: isValidSwipe_def num_gt_def num_lt_irrefl)

lemma isValidSwipe_strict_offset: "\<not> isValidSwipe v vt d (Math_abs d)"
  by (simp add: isValidSwipe_def num_lt_irrefl)

text \<open>
  C7. The claim: for every gesture state and configuration, \<open>|vx|\<close> (or \<open>|vy|\<close>) equal
  to the configuration's \<open>velocityThreshold\<close>, or \<open>|dy|\<close> (or \<open>|dx|\<close>) equal to its
  \<open>directionalOffsetThreshold\<close>, makes the swipe on that axis invalid. The two axis
  functions hand the thresholds of \<open>defaultSwipeConfig\<close> to \<open>isValidSwipe\<close>, not the
  caller's. With \<open>velocityThreshold\<close> overridden to 0.5 and the gesture dx = 100,
  dy = 0, vx = 0.5, vy = 0, \<open>|vx|\<close> is exactly the configured threshold, yet the
  horizontal swipe is valid and the classifier returns SWIPE_RIGHT. With
  \<open>directionalOffsetThreshold\<close> overridden to 20 and the gesture dx = 20, dy = 100,
  vx = 0, vy = 1, \<open>|dx|\<close> is exactly the configured threshold, yet the vertical swipe
  is valid and the classifier returns SWIPE_DOWN.
\<close>

theorem C7_configured_threshold_not_exclusive:
  "Math_abs (vx (gesture (Finite 100) (Finite 0) (Finite 0.5) (Finite 0)))
     = velocityThreshold
         (swipeConfig (propsWith (emptyConfig\<lparr>velocityThreshold_opt := Some (Finite 0.5)\<rparr>) (Some True)))
   \<and> isValidHorizontalSwipe (gesture (Finite 100) (Finite 0) (Finite 0.5) (Finite 0)) = True
   \<and> getSwipeDirection (gesture (Finite 100) (Finite 0) (Finite 0.5) (Finite 0)) = Some SWIPE_RIGHT
   \<and> Math_abs (dx (gesture (Finite 20) (Finite 100) (Finite 0) (Finite 1)))
     = directionalOffsetThreshold
         (swipeConfig (propsWith (emptyConfig\<lparr>directionalOffsetThreshold_opt := Some (Finite 20)\<rparr>) (Some True)))
   \<and> isValidVerticalSwipe (gesture (Finite 20) (Finite 100) (Finite 0) (Finite 1)) = True
   \<and> getSwipeDirection (gesture (Finite 20) (Finite 100) (Finite 0) (Finite 1)) = Some SWIPE_DOWN"
  by (simp add: eval_defs props_defs)

section \<open>Clicks\<close>

text \<open>
  C8. A gesture is a click exactly when \<open>|dx|\<close> and \<open>|dy|\<close> are both below
  \<open>gestureIsClickThreshold\<close> of the merged configuration, which is the caller's value when
  the caller gives one and 5 otherwise.
\<close>

theorem C8_click_merged_threshold:
  "gestureIsClick props gs =
     (num_lt (Math_abs (dx gs)) (gestureIsClickThreshold (swipeConfig props))
      \<and> num_lt (Math_abs (dy gs)) (gestureIsClickThreshold (swipeConfig props)))
   \<and> gestureIsClickThreshold (swipeConfig props) =
       (case gestureIsClickThreshold_opt (config props) of None \<Rightarrow> Finite 5 | Some t \<Rightarrow> t)"
  by (simp add: gestureIsClick_def swipeConfig_def spread_def defaultSwipeConfig_def)

theorem C8_click_merged_threshold_witness:
  "gestureIsClick (propsWith (emptyConfig\<lparr>gestureIsClickThreshold_opt := Some (Finite 20)\<rparr>) (Some True))
     (gesture (Finite 10) (Finite (- 10)) (Finite 0) (Finite 0))
   \<and> \<not> gestureIsClick (propsWith emptyConfig (Some True))
     (gesture (Finite 10) (Finite (- 10)) (Finite 0) (Finite 0))"
proof -
  let ?g = "gesture (Finite 10) (Finite (- 10)) (Finite 0) (Finite 0)"
  let ?p = "propsWith (emptyConfig\<lparr>gestureIsClickThreshold_opt := Some (Finite 20)\<rparr>) (Some True)"
  let ?q = "propsWith emptyConfig (Some True)"
  have tp: "gestureIsClickThreshold_opt (config ?p) = Some (Finite 20)"
    and tq: "gestureIsClickThreshold_opt (config ?q) = None"
    by (simp_all add: propsWith_def emptyConfig_def)
  have g: "Math_abs (dx ?g) = Finite 10" "Math_abs (dy ?g) = Finite 10"
    by (simp_all add: gesture_def)
  from C8_click_merged_threshold [of ?p ?g] tp g have "gestureIsClick ?p ?g"
    by simp
  moreover from C8_click_merged_threshold [of ?q ?g] tq g have "\<not> gestureIsClick ?q ?g"
    by simp
  ultimately show ?thesis
    by simp
qed

section \<open>Vertical scroll priority\<close>

text \<open>
  C9. When \<open>needVerticalScroll\<close> of the merged configuration is true and \<open>|dy|\<close> exceeds
  its \<open>scrollVerticalThreshold\<close>, the claim decision is false on a start event and on a
  move event, whatever \<open>swipeEnabled\<close>, the number of touches and the click test say.
\<close>

theorem C9_vertical_scroll_declines:
  assumes "needVerticalScroll (swipeConfig props)"
    and "num_gt (Math_abs (dy gs)) (scrollVerticalThreshold (swipeConfig props))"
  shows "handleShouldSetPanResponder props evt gs = False
         \<and> onStartShouldSetPanResponder (GestureHandler props) evt gs = False
         \<and> onMoveShouldSetPanResponder (GestureHandler props) evt gs = False"
proof -
  from assms(2)
  have "num_gt (dy gs) (scrollVerticalThreshold (swipeConfig props))
        \<or> num_lt (dy gs) (num_neg (scrollVerticalThreshold (swipeConfig props)))"
    by (simp add: num_gt_abs)
  with assms(1) have "handleShouldSetPanResponder props evt gs = False"
    by (simp add: handleShouldSetPanResponder_def)
  then show ?thesis
    by (simp add: GestureHandler_def)
qed

theorem C9_vertical_scroll_declines_witness:
  "needVerticalScroll (swipeConfig (propsWith (emptyConfig\<lparr>needVerticalScroll_opt := Some True\<rparr>) (Some True)))
   \<and> num_gt (Math_abs (dy (gesture (Finite 50) (Finite (- 10)) (Finite 1) (Finite 0))))
        (scrollVerticalThreshold
          (swipeConfig (propsWith (emptyConfig\<lparr>needVerticalScroll_opt := Some True\<rparr>) (Some True))))
   \<and> onMoveShouldSetPanResponder
        (GestureHandler (propsWith (emptyConfig\<lparr>needVerticalScroll_opt := Some True\<rparr>) (Some True)))
        oneTouch (gesture (Finite 50) (Finite (- 10)) (Finite 1) (Finite 0)) = False
   \<and> onMoveShouldSetPanResponder (GestureHandler (propsWith emptyConfig (Some True)))
        oneTouch (gesture (Finite 50) (Finite (- 10)) (Finite 1) (Finite 0)) = True"
proof -
  let ?p = "propsWith (emptyConfig\<lparr>needVerticalScroll_opt := Some True\<rparr>) (Some True)"
  let ?g = "gesture (Finite 50) (Finite (- 10)) (Finite 1) (Finite 0)"
  have n: "needVerticalScroll (swipeConfig ?p)"
    by (simp add: props_defs)
  have d: "num_gt (Math_abs (dy ?g)) (scrollVerticalThreshold (swipeConfig ?p))"
    by (simp add: props_defs defaultSwipeConfig_def gesture_def num_gt_def)
  have "onMoveShouldSetPanResponder (GestureHandler (propsWith emptyConfig (Some True))) oneTouch ?g"
    by (simp add: props_defs GestureHandler_def defaultSwipeConfig_def gesture_def num_gt_def)
  with C9_vertical_scroll_declines [OF n d, of oneTouch] n d show ?thesis
    by simp
qed

section \<open>What the classifier reads\<close>

text \<open>
  C10. Two gesture states with the same dx, dy, vx and vy are classified alike, whatever
  their other fields (and whatever the configuration, which the classifier does not
  take).
\<close>

theorem C10_reads_only_displacement_and_velocity:
  assumes "dx a = dx b" and "dy a = dy b" and "vx a = vx b" and "vy a = vy b"
  shows "getSwipeDirection a = getSwipeDirection b"
  using assms
  by (simp add: getSwipeDirection_def isValidHorizontalSwipe_def isValidVerticalSwipe_def)

theorem C10_reads_only_displacement_and_velocity_witness:
  "moveX (gesture (Finite (- 100)) (Finite 10) (Finite (- 0.5)) (Finite 0))
     \<noteq> moveX ((gesture (Finite (- 100)) (Finite 10) (Finite (- 0.5)) (Finite 0))
          \<lparr>moveX := Finite 7, x0 := Finite 107, numberActiveTouches := Finite 3\<rparr>)
   \<and> getSwipeDirection ((gesture (Finite (- 100)) (Finite 10) (Finite (- 0.5)) (Finite 0))
          \<lparr>moveX := Finite 7, x0 := Finite 107, numberActiveTouches := Finite 3\<rparr>)
     = getSwipeDirection (gesture (Finite (- 100)) (Finite 10) (Finite (- 0.5)) (Finite 0))
   \<and> getSwipeDirection (gesture (Finite (- 100)) (Finite 10) (Finite (- 0.5)) (Finite 0))
     = Some SWIPE_LEFT"
proof -
  let ?a = "gesture (Finite (- 100)) (Finite 10) (Finite (- 0.5)) (Finite 0)"
  let ?b = "?a\<lparr>moveX := Finite 7, x0 := Finite 107, numberActiveTouches := Finite 3\<rparr>"
  have "getSwipeDirection ?b = getSwipeDirection ?a"
    by (rule C10_reads_only_displacement_and_velocity) simp_all
  moreover have "getSwipeDirection ?a = Some SWIPE_LEFT"
    by (simp add: eval_defs)
  moreover have "moveX ?a \<noteq> moveX ?b"
    by (simp add: gesture_def)
  ultimately show ?thesis
    by simp
qed

end
